theory Spec2Isabelle
  imports Main
begin

section \<open>Python objects: dictionaries on a heap\<close>

text \<open>
  The file under verification is \<^verbatim>\<open>mozbuilddata/connection/builds.py\<close>: the class
  \<^verbatim>\<open>BuildConnection\<close> with the two methods \<^verbatim>\<open>insert_build\<close> and \<^verbatim>\<open>get_build\<close>.

  A Python dictionary is a partial map from keys (column names) to values. The values
  (\<^verbatim>\<open>build_id\<close>, \<^verbatim>\<open>version\<close> and whatever \<^verbatim>\<open>params\<close> holds) are opaque to the
  code, so their type stays a parameter \<open>'v\<close>.

  \<^verbatim>\<open>insert_build\<close> receives \<^verbatim>\<open>params\<close> by reference and builds a second dictionary
  from it, so dictionaries live on a heap: \<open>objs\<close> gives the content of every address
  and \<open>next_addr\<close> is the first address not allocated yet. The third component,
  \<open>conn\<close>, is the state reachable through \<^verbatim>\<open>self\<close>: the connection \<^verbatim>\<open>self.c\<close> and
  the store behind it.
\<close>

type_synonym 'v dict = "string \<rightharpoonup> 'v"

type_synonym addr = nat

record ('v, 's) pystate =
  objs :: "addr \<Rightarrow> 'v dict"
  next_addr :: addr
  conn :: 's

text \<open>\<^verbatim>\<open>dict(params)\<close>: a new object holding a copy of the entries of \<^verbatim>\<open>params\<close>.\<close>

definition dict_copy :: "addr \<Rightarrow> ('v, 's) pystate \<Rightarrow> addr \<times> ('v, 's) pystate" where
  "dict_copy src st =
     (next_addr st,
      st\<lparr>objs := (objs st)(next_addr st := objs st src),
         next_addr := Suc (next_addr st)\<rparr>)"

text \<open>\<^verbatim>\<open>d[k] = v\<close>: the object at address \<open>d\<close> is updated in place.\<close>

definition setitem :: "addr \<Rightarrow> string \<Rightarrow> 'v \<Rightarrow> ('v, 's) pystate \<Rightarrow> ('v, 's) pystate" where
  "setitem d k v st = st\<lparr>objs := (objs st)(d := (objs st d)(k \<mapsto> v))\<rparr>"

section \<open>The collaborator \<^verbatim>\<open>ConnectionBase\<close>\<close>

text \<open>
  \<^verbatim>\<open>BuildConnection\<close> inherits from \<^verbatim>\<open>ConnectionBase\<close>, which is imported from the
  package and is not part of the file. The two methods use four of its operations,
  taken here as parameters. Each of them may change the connection state \<open>'s\<close> and
  may raise: the result is \<open>Inl e\<close> for a raised error \<open>e\<close> and \<open>Inr x\<close> for a
  returned value \<open>x\<close>, paired with the state it leaves. They receive the content of
  a dictionary and work on the connection state: the heap of the caller's dictionaries
  is not theirs to change.

  \<^item> \<open>insert_dict\<close> is \<^verbatim>\<open>self._insert_dict(table, d)\<close>; what it returns has type \<open>'r\<close>.
  \<^item> \<open>cursor\<close> is \<^verbatim>\<open>self.c.cursor()\<close>; a cursor object has type \<open>'c\<close>.
  \<^item> \<open>execute\<close> is \<^verbatim>\<open>c.execute(sql, binds)\<close>; it changes the cursor object, so the
    model returns the cursor as it is after the call.
  \<^item> \<open>cursor_to_dicts\<close> is \<^verbatim>\<open>self._cursor_to_dicts(c)\<close>. Its result is iterated by a
    \<^verbatim>\<open>for\<close> loop, so it is a sequence; an element is \<open>Inr row\<close> when the iteration
    yields \<open>row\<close> there and \<open>Inl e\<close> when the iteration raises \<open>e\<close> there (a lazy
    generator fails only when the loop reaches the failing element).
\<close>

record ('v, 's, 'c, 'e, 'r) ConnectionBase =
  insert_dict :: "string \<Rightarrow> 'v dict \<Rightarrow> 's \<Rightarrow> ('e + 'r) \<times> 's"
  cursor :: "'s \<Rightarrow> ('e + 'c) \<times> 's"
  execute :: "'c \<Rightarrow> string \<Rightarrow> 'v dict \<Rightarrow> 's \<Rightarrow> ('e + 'c) \<times> 's"
  cursor_to_dicts :: "'c \<Rightarrow> 's \<Rightarrow> ('e + ('e + 'v dict) list) \<times> 's"

section \<open>\<^verbatim>\<open>BuildConnection\<close>\<close>

text \<open>
  \<^verbatim>\<open>
  def insert_build(self, build_id, version, params):
      d = dict(params)
      d['id'] = build_id
      d['version_'] = version

      self._insert_dict(b'builds', d)
  \<close>
  The value \<^verbatim>\<open>_insert_dict\<close> returns is dropped: the method returns \<^verbatim>\<open>None\<close>
  (the unit value) unless the call raises.
\<close>

definition insert_build ::
  "('v, 's, 'c, 'e, 'r) ConnectionBase \<Rightarrow> 'v \<Rightarrow> 'v \<Rightarrow> addr \<Rightarrow> ('v, 's) pystate
     \<Rightarrow> ('e + unit) \<times> ('v, 's) pystate" where
  "insert_build self build_id version params st =
     (let (d, st1) = dict_copy params st;
          st2 = setitem d ''id'' build_id st1;
          st3 = setitem d ''version_'' version st2
      in case insert_dict self ''builds'' (objs st3 d) (conn st3) of
           (Inl e, s) \<Rightarrow> (Inl e, st3\<lparr>conn := s\<rparr>)
         | (Inr r, s) \<Rightarrow> (Inr (), st3\<lparr>conn := s\<rparr>))"

text \<open>
  \<^verbatim>\<open>
  for row in self._cursor_to_dicts(c):
      return row

  return None
  \<close>
  The body returns in the first iteration, so the loop reads one element at most.
\<close>

fun first_row :: "('e + 'v dict) list \<Rightarrow> 'e + 'v dict option" where
  "first_row [] = Inr None"
| "first_row (Inr row # rest) = Inr (Some row)"
| "first_row (Inl e # rest) = Inl e"

text \<open>
  \<^verbatim>\<open>
  def get_build(self, build_id):
      c = self.c.cursor()
      c.execute(b'SELECT * FROM builds WHERE id=:id', {'id': build_id})
      ...
  \<close>
\<close>

definition get_build ::
  "('v, 's, 'c, 'e, 'r) ConnectionBase \<Rightarrow> 'v \<Rightarrow> ('v, 's) pystate
     \<Rightarrow> ('e + 'v dict option) \<times> ('v, 's) pystate" where
  "get_build self build_id st =
     (case cursor self (conn st) of
        (Inl e, s1) \<Rightarrow> (Inl e, st\<lparr>conn := s1\<rparr>)
      | (Inr c, s1) \<Rightarrow>
          (case execute self c ''SELECT * FROM builds WHERE id=:id'' [''id'' \<mapsto> build_id] s1 of
             (Inl e, s2) \<Rightarrow> (Inl e, st\<lparr>conn := s2\<rparr>)
           | (Inr c', s2) \<Rightarrow>
               (case cursor_to_dicts self c' s2 of
                  (Inl e, s3) \<Rightarrow> (Inl e, st\<lparr>conn := s3\<rparr>)
                | (Inr rows, s3) \<Rightarrow> (first_row rows, st\<lparr>conn := s3\<rparr>))))"

section \<open>A relational store behind the connection\<close>

text \<open>
  Modelled from the spec: the class \<^verbatim>\<open>ConnectionBase\<close> (the package's
  \<^verbatim>\<open>__init__\<close> module) and the store it talks to are missing from the sources. The
  specification describes them as a relational store with a table \<^verbatim>\<open>builds\<close> whose
  rows are mappings from column names to values, in which \<^verbatim>\<open>id\<close> is unique by a
  store-level constraint, and a connection offering "insert mapping as row" (which
  raises a uniqueness violation on a duplicate \<^verbatim>\<open>id\<close>), a cursor executing the
  parameterized lookup \<^verbatim>\<open>SELECT * FROM builds WHERE id = build_id\<close>, and "convert result
  rows to mappings".

  A store maps a table name to its rows, in insertion order. A cursor holds the rows of
  its last statement.
\<close>

type_synonym 'v store = "string \<Rightarrow> 'v dict list"

datatype store_error = UniquenessViolation | UnsupportedStatement | MissingParameter

text \<open>Modelled from the spec: the rows a lookup by \<^verbatim>\<open>id\<close> matches, in table order.\<close>

definition rows_with_id :: "'v option \<Rightarrow> 'v dict list \<Rightarrow> 'v dict list" where
  "rows_with_id i rows = filter (\<lambda>r. r ''id'' = i) rows"

text \<open>
  Modelled from the spec: \<^verbatim>\<open>_insert_dict\<close>, the generic "insert mapping as row". The table
  \<^verbatim>\<open>builds\<close> refuses a second row with an \<^verbatim>\<open>id\<close> it already holds; otherwise the row
  is added after the rows present.
\<close>

definition store_insert_dict ::
  "string \<Rightarrow> 'v dict \<Rightarrow> 'v store \<Rightarrow> (store_error + unit) \<times> 'v store" where
  "store_insert_dict table d s =
     (if table = ''builds'' \<and> rows_with_id (d ''id'') (s table) \<noteq> []
      then (Inl UniquenessViolation, s)
      else (Inr (), s(table := s table @ [d])))"

text \<open>Modelled from the spec: \<^verbatim>\<open>cursor()\<close>, a new cursor with no result rows.\<close>

definition store_cursor :: "'v store \<Rightarrow> (store_error + 'v dict list) \<times> 'v store" where
  "store_cursor s = (Inr [], s)"

text \<open>
  Modelled from the spec: \<^verbatim>\<open>execute\<close>. The store understands the parameterized lookup
  by \<^verbatim>\<open>id\<close> and reads the identifier from the bound parameters, never from the text.
\<close>

definition store_execute ::
  "'v dict list \<Rightarrow> string \<Rightarrow> 'v dict \<Rightarrow> 'v store \<Rightarrow> (store_error + 'v dict list) \<times> 'v store" where
  "store_execute c sql binds s =
     (if sql = ''SELECT * FROM builds WHERE id=:id''
      then (case binds ''id'' of
              None \<Rightarrow> (Inl MissingParameter, s)
            | Some i \<Rightarrow> (Inr (rows_with_id (Some i) (s ''builds'')), s))
      else (Inl UnsupportedStatement, s))"

text \<open>Modelled from the spec: \<^verbatim>\<open>_cursor_to_dicts\<close>, every result row as a mapping.\<close>

definition store_cursor_to_dicts ::
  "'v dict list \<Rightarrow> 'v store \<Rightarrow> (store_error + (store_error + 'v dict) list) \<times> 'v store" where
  "store_cursor_to_dicts c s = (Inr (map Inr c), s)"

definition store_conn :: "('v, 'v store, 'v dict list, store_error, unit) ConnectionBase" where
  "store_conn =
     \<lparr>insert_dict = store_insert_dict,
      cursor = store_cursor,
      execute = store_execute,
      cursor_to_dicts = store_cursor_to_dicts\<rparr>"


section \<open>Observers and example states\<close>

text \<open>
  A connection that records every statement it is asked to execute, with its bound
  parameters, and does nothing else: its state is the list of the statements received.
\<close>

definition sql_recorder :: "('v, (string \<times> 'v dict) list, unit, unit, unit) ConnectionBase" where
  "sql_recorder =
     \<lparr>insert_dict = (\<lambda>table d s. (Inr (), s)),
      cursor = (\<lambda>s. (Inr (), s)),
      execute = (\<lambda>c sql binds s. (Inr (), s @ [(sql, binds)])),
      cursor_to_dicts = (\<lambda>c s. (Inr [], s))\<rparr>"

text \<open>
  A connection over no state at all whose \<open>n\<close>-th operation raises the error \<open>err\<close>:
  \<open>0\<close> is the insert, \<open>1\<close> the cursor creation, \<open>2\<close> the execution, \<open>3\<close> the call
  converting rows to mappings and \<open>4\<close> the conversion of the first row.
\<close>

definition failing_at :: "nat \<Rightarrow> 'e \<Rightarrow> ('v, unit, unit, 'e, unit) ConnectionBase" where
  "failing_at n err =
     \<lparr>insert_dict = (\<lambda>table d s. (if n = 0 then Inl err else Inr (), s)),
      cursor = (\<lambda>s. (if n = 1 then Inl err else Inr (), s)),
      execute = (\<lambda>c sql binds s. (if n = 2 then Inl err else Inr (), s)),
      cursor_to_dicts =
        (\<lambda>c s. (if n = 3 then Inl err
                else Inr [if n = 4 then Inl err else Inr Map.empty], s))\<rparr>"

text \<open>The state whose heap holds the dictionaries \<open>ds\<close> at the addresses \<open>0, 1, ...\<close>.\<close>

definition heap_of :: "'v dict list \<Rightarrow> 's \<Rightarrow> ('v, 's) pystate" where
  "heap_of ds s =
     \<lparr>objs = (\<lambda>a. if a < length ds then ds ! a else Map.empty),
      next_addr = length ds,
      conn = s\<rparr>"

text \<open>The store whose table \<^verbatim>\<open>builds\<close> holds \<open>rows\<close> and whose other tables are empty.\<close>

definition builds_only :: "'v dict list \<Rightarrow> 'v store" where
  "builds_only rows = (\<lambda>table. if table = ''builds'' then rows else [])"


text \<open>
  Example states. In \<open>st_fresh\<close> the store is empty; in \<open>st_held\<close> the table
  \<^verbatim>\<open>builds\<close> already holds a row with the identifier \<open>b1\<close>; in \<open>st_twice\<close> two rows
  carry that identifier. The heap of each holds one dictionary, at address \<open>0\<close>.
\<close>

definition st_fresh :: "(string, string store) pystate" where
  "st_fresh = heap_of [[''branch'' \<mapsto> ''central'', ''id'' \<mapsto> ''other'']] (builds_only [])"

definition st_held :: "(string, string store) pystate" where
  "st_held =
     heap_of [[''branch'' \<mapsto> ''central'']]
       (builds_only [[''id'' \<mapsto> ''b1'', ''version_'' \<mapsto> ''v1'']])"

definition st_twice :: "(string, string store) pystate" where
  "st_twice =
     heap_of [Map.empty]
       (builds_only [[''id'' \<mapsto> ''b0'', ''version_'' \<mapsto> ''v0''],
                     [''id'' \<mapsto> ''b1'', ''version_'' \<mapsto> ''v1''],
                     [''id'' \<mapsto> ''b1'', ''version_'' \<mapsto> ''v2'']])"

text \<open>A state of the recording connection: nothing on the heap, one statement received.\<close>

definition st_recorded :: "(string, (string \<times> string dict) list) pystate" where
  "st_recorded = heap_of [] [(''BEGIN'', Map.empty)]"

section \<open>Auxiliary facts\<close>

text \<open>The three statements on the new dictionary, taken together.\<close>

lemma insert_build_unfold:
  "insert_build self build_id version params st =
     (let row = (objs st params)(''id'' \<mapsto> build_id, ''version_'' \<mapsto> version);
          st3 = st\<lparr>objs := (objs st)(next_addr st := row), next_addr := Suc (next_addr st)\<rparr>
      in case insert_dict self ''builds'' row (conn st) of
           (Inl e, s) \<Rightarrow> (Inl e, st3\<lparr>conn := s\<rparr>)
         | (Inr r, s) \<Rightarrow> (Inr (), st3\<lparr>conn := s\<rparr>))"
  by (simp add: insert_build_def dict_copy_def setitem_def Let_def split: prod.splits sum.splits)

lemma first_row_map_Inr:
  "first_row (map Inr rows) = Inr (case rows of [] \<Rightarrow> None | r # rest \<Rightarrow> Some r)"
  by (cases rows) simp_all

text \<open>The two methods over the relational store.\<close>

lemma get_build_store:
  "get_build store_conn build_id st =
     (Inr (case rows_with_id (Some build_id) (conn st ''builds'') of
             [] \<Rightarrow> None | r # rest \<Rightarrow> Some r), st)"
  by (simp add: get_build_def store_conn_def store_cursor_def store_execute_def
      store_cursor_to_dicts_def first_row_map_Inr)

lemma insert_build_store:
  "insert_build store_conn build_id version params st =
     (let row = (objs st params)(''id'' \<mapsto> build_id, ''version_'' \<mapsto> version);
          st3 = st\<lparr>objs := (objs st)(next_addr st := row), next_addr := Suc (next_addr st)\<rparr>
      in if rows_with_id (Some build_id) (conn st ''builds'') \<noteq> []
         then (Inl UniquenessViolation, st3)
         else (Inr (), st3\<lparr>conn := (conn st)(''builds'' := conn st ''builds'' @ [row])\<rparr>))"
  by (simp add: insert_build_unfold store_conn_def store_insert_dict_def Let_def)

lemma rows_with_id_empty:
  "rows_with_id i rows = [] \<longleftrightarrow> (\<forall>r\<in>set rows. r ''id'' \<noteq> i)"
  by (simp add: rows_with_id_def filter_empty_conv)

lemma conn_heap_of [simp]: "conn (heap_of ds s) = s"
  by (simp add: heap_of_def)

lemma next_addr_heap_of [simp]: "next_addr (heap_of ds s) = length ds"
  by (simp add: heap_of_def)

lemma objs_heap_of [simp]:
  "objs (heap_of ds s) a = (if a < length ds then ds ! a else Map.empty)"
  by (simp add: heap_of_def)

lemma builds_only_apply [simp]: "builds_only rows ''builds'' = rows"
  by (simp add: builds_only_def)

section \<open>Insert, then fetch\<close>

text \<open>
  \<^bold>\<open>C1\<close>, amended. For every \<open>build_id\<close>, \<open>version\<close> and \<open>params\<close>, and every state
  of the store in which no row of \<^verbatim>\<open>builds\<close> has \<^verbatim>\<open>id\<close> equal to \<open>build_id\<close>:
  \<^verbatim>\<open>insert_build(build_id, version, params)\<close> returns, and \<^verbatim>\<open>get_build(build_id)\<close> on
  the resulting store returns a record, not \<^verbatim>\<open>None\<close>, whose \<^verbatim>\<open>version_\<close> is \<open>version\<close>
  and which holds every entry of \<open>params\<close> but those under the keys \<^verbatim>\<open>id\<close> and
  \<^verbatim>\<open>version_\<close>. (Where a row with that \<^verbatim>\<open>id\<close> is present already, the store refuses
  the insert and the lookup finds the row that was there.)
\<close>

theorem insert_then_get_build:
  assumes "\<forall>r\<in>set (conn st ''builds''). r ''id'' \<noteq> Some build_id"
  shows "fst (insert_build store_conn build_id version params st) = Inr ()
    \<and> fst (get_build store_conn build_id (snd (insert_build store_conn build_id version params st)))
        = Inr (Some ((objs st params)(''id'' \<mapsto> build_id, ''version_'' \<mapsto> version)))
    \<and> ((objs st params)(''id'' \<mapsto> build_id, ''version_'' \<mapsto> version)) ''version_'' = Some version
    \<and> (\<forall>k x. objs st params k = Some x \<and> k \<noteq> ''id'' \<and> k \<noteq> ''version_''
          \<longrightarrow> ((objs st params)(''id'' \<mapsto> build_id, ''version_'' \<mapsto> version)) k = Some x)"
proof -
  from assms have e: "rows_with_id (Some build_id) (conn st ''builds'') = []"
    by (simp add: rows_with_id_empty)
  then have "rows_with_id (Some build_id)
      (conn st ''builds'' @ [(objs st params)(''id'' \<mapsto> build_id, ''version_'' \<mapsto> version)])
      = [(objs st params)(''id'' \<mapsto> build_id, ''version_'' \<mapsto> version)]"
    by (simp add: rows_with_id_def)
  with e show ?thesis
    by (simp add: insert_build_store get_build_store Let_def)
qed

text \<open>In \<open>st_held\<close> no row has the identifier \<open>b2\<close>.\<close>

theorem insert_then_get_build_witness:
  "fst (insert_build store_conn ''b2'' ''v9'' 0 st_held) = Inr ()
   \<and> fst (get_build store_conn ''b2'' (snd (insert_build store_conn ''b2'' ''v9'' 0 st_held)))
       = Inr (Some [''branch'' \<mapsto> ''central'', ''id'' \<mapsto> ''b2'', ''version_'' \<mapsto> ''v9''])"
proof -
  have h: "\<forall>r\<in>set (conn st_held ''builds''). r ''id'' \<noteq> Some ''b2''"
    by (simp add: st_held_def)
  have o: "objs st_held 0 = [''branch'' \<mapsto> ''central'']"
    by (simp add: st_held_def)
  from insert_then_get_build [OF h, of "''v9''" 0] show ?thesis
    by (simp add: o)
qed

text \<open>
  In \<open>st_held\<close> a row with the identifier \<open>b1\<close> and the version \<open>v1\<close> is present:
  inserting \<open>b1\<close> with the version \<open>v9\<close> raises, and fetching \<open>b1\<close> afterwards returns
  the version \<open>v1\<close>.
\<close>

theorem insert_then_get_build_counterexample:
  "fst (insert_build store_conn ''b1'' ''v9'' 0 st_held) = Inl UniquenessViolation
   \<and> fst (get_build store_conn ''b1'' (snd (insert_build store_conn ''b1'' ''v9'' 0 st_held)))
       = Inr (Some [''id'' \<mapsto> ''b1'', ''version_'' \<mapsto> ''v1''])
   \<and> [''id'' \<mapsto> ''b1'', ''version_'' \<mapsto> ''v1''] ''version_'' \<noteq> Some ''v9''"
  by (simp add: insert_build_store get_build_store Let_def st_held_def rows_with_id_def)

section \<open>Fetching an identifier that is absent\<close>

text \<open>
  \<^bold>\<open>C2\<close>. For every state of the store and every \<open>build_id\<close> such that no row of
  \<^verbatim>\<open>builds\<close> has \<^verbatim>\<open>id\<close> equal to \<open>build_id\<close>, \<^verbatim>\<open>get_build(build_id)\<close> returns
  \<^verbatim>\<open>None\<close>: the result is \<open>Inr None\<close>, which is neither an error \<open>Inl e\<close> nor a
  mapping \<open>Inr (Some m)\<close>, and the state is as before.
\<close>

theorem get_build_absent:
  "\<forall>r\<in>set (conn st ''builds''). r ''id'' \<noteq> Some build_id \<Longrightarrow>
     get_build store_conn build_id st = (Inr None, st)"
  using rows_with_id_empty [of "Some build_id" "conn st ''builds''"]
  by (simp add: get_build_store)

theorem get_build_absent_witness:
  "get_build store_conn ''b2'' st_held = (Inr None, st_held)"
proof -
  have h: "\<forall>r\<in>set (conn st_held ''builds''). r ''id'' \<noteq> Some ''b2''"
    by (simp add: st_held_def)
  from get_build_absent [OF h] show ?thesis .
qed

section \<open>The row handed to the store\<close>

text \<open>
  \<^bold>\<open>C3\<close>. For every \<open>build_id\<close>, \<open>version\<close> and \<open>params\<close>, and whatever the
  connection is: the row \<^verbatim>\<open>insert_build\<close> hands to \<^verbatim>\<open>_insert_dict\<close> for the table
  \<^verbatim>\<open>builds\<close> is the content of \<open>params\<close> with \<^verbatim>\<open>id\<close> set to \<open>build_id\<close> and
  \<^verbatim>\<open>version_\<close> set to \<open>version\<close>. It is the content of the new dictionary (at the
  address that was free), the outcome of the method is the outcome of that one call, and
  the two arguments win over entries of \<open>params\<close> under the same keys.
\<close>

theorem insert_build_row:
  "let row = (objs st params)(''id'' \<mapsto> build_id, ''version_'' \<mapsto> version) in
     fst (insert_build self build_id version params st)
       = map_sum id (\<lambda>r. ()) (fst (insert_dict self ''builds'' row (conn st)))
     \<and> conn (snd (insert_build self build_id version params st))
       = snd (insert_dict self ''builds'' row (conn st))
     \<and> objs (snd (insert_build self build_id version params st)) (next_addr st) = row
     \<and> row ''id'' = Some build_id
     \<and> row ''version_'' = Some version"
  by (simp add: insert_build_unfold Let_def split: prod.splits sum.splits)

text \<open>In \<open>st_fresh\<close> the dictionary at address \<open>0\<close> has an entry \<^verbatim>\<open>id\<close> of its own.\<close>

theorem insert_build_row_witness:
  "fst (insert_build store_conn ''b1'' ''v1'' 0 st_fresh) = Inr ()
   \<and> conn (snd (insert_build store_conn ''b1'' ''v1'' 0 st_fresh)) ''builds''
       = [[''branch'' \<mapsto> ''central'', ''id'' \<mapsto> ''b1'', ''version_'' \<mapsto> ''v1'']]"
  using insert_build_row [of st_fresh 0 "''b1''" "''v1''" store_conn]
  by (simp add: Let_def st_fresh_def store_conn_def store_insert_dict_def rows_with_id_def)

section \<open>Several matching rows\<close>

text \<open>
  \<^bold>\<open>C4\<close>. For every state of the store in which a row of \<^verbatim>\<open>builds\<close> matches
  \<open>build_id\<close>: \<^verbatim>\<open>get_build(build_id)\<close> returns one record, the first matching row \<open>r\<close>
  in the order of the result, whatever rows \<open>post\<close> follow it, matching or not.
\<close>

theorem get_build_first_match:
  assumes "conn st ''builds'' = pre @ r # post"
    and "\<forall>x\<in>set pre. x ''id'' \<noteq> Some build_id"
    and "r ''id'' = Some build_id"
  shows "get_build store_conn build_id st = (Inr (Some r), st)"
proof -
  from assms(2) have "rows_with_id (Some build_id) pre = []"
    by (simp add: rows_with_id_empty)
  with assms(1,3) have "rows_with_id (Some build_id) (conn st ''builds'')
      = r # rows_with_id (Some build_id) post"
    by (simp add: rows_with_id_def)
  then show ?thesis
    by (simp add: get_build_store)
qed

text \<open>In \<open>st_twice\<close> the second and the third row carry the identifier \<open>b1\<close>.\<close>

theorem get_build_first_match_witness:
  "get_build store_conn ''b1'' st_twice
     = (Inr (Some [''id'' \<mapsto> ''b1'', ''version_'' \<mapsto> ''v1'']), st_twice)"
proof -
  have a: "conn st_twice ''builds''
      = [[''id'' \<mapsto> ''b0'', ''version_'' \<mapsto> ''v0'']]
        @ [''id'' \<mapsto> ''b1'', ''version_'' \<mapsto> ''v1'']
        # [[''id'' \<mapsto> ''b1'', ''version_'' \<mapsto> ''v2'']]"
    by (simp add: st_twice_def)
  have b: "\<forall>x\<in>set [[''id'' \<mapsto> ''b0'', ''version_'' \<mapsto> ''v0'']]. x ''id'' \<noteq> Some ''b1''"
    by simp
  have c: "[''id'' \<mapsto> ''b1'', ''version_'' \<mapsto> ''v1''] ''id'' = Some ''b1''"
    by simp
  from get_build_first_match [OF a b c] show ?thesis .
qed

section \<open>Two builds\<close>

text \<open>
  \<^bold>\<open>C5\<close>, amended. For distinct identifiers \<open>id1\<close> and \<open>id2\<close> and any versions and
  parameters, and every state of the store in which no row of \<^verbatim>\<open>builds\<close> has \<^verbatim>\<open>id\<close>
  equal to \<open>id1\<close> or to \<open>id2\<close>: both inserts return, and afterwards
  \<^verbatim>\<open>get_build(id1)\<close> returns the record built from \<open>id1\<close>, \<open>v1\<close> and the first
  parameters, \<^verbatim>\<open>get_build(id2)\<close> the record built from \<open>id2\<close>, \<open>v2\<close> and the second
  ones (which may be the same dictionary object as the first). (Where a row with one of
  the identifiers is present already, the store refuses that insert and the lookup finds
  the row that was there.)
\<close>

theorem insert_two_builds:
  assumes "id1 \<noteq> id2"
    and "\<forall>r\<in>set (conn st ''builds''). r ''id'' \<noteq> Some id1 \<and> r ''id'' \<noteq> Some id2"
    and "p1 < next_addr st" and "p2 < next_addr st"
  shows "fst (insert_build store_conn id1 v1 p1 st) = Inr ()
    \<and> fst (insert_build store_conn id2 v2 p2 (snd (insert_build store_conn id1 v1 p1 st))) = Inr ()
    \<and> fst (get_build store_conn id1
          (snd (insert_build store_conn id2 v2 p2 (snd (insert_build store_conn id1 v1 p1 st)))))
        = Inr (Some ((objs st p1)(''id'' \<mapsto> id1, ''version_'' \<mapsto> v1)))
    \<and> fst (get_build store_conn id2
          (snd (insert_build store_conn id2 v2 p2 (snd (insert_build store_conn id1 v1 p1 st)))))
        = Inr (Some ((objs st p2)(''id'' \<mapsto> id2, ''version_'' \<mapsto> v2)))"
proof -
  from assms(2) have "rows_with_id (Some id1) (conn st ''builds'') = []"
    and "rows_with_id (Some id2) (conn st ''builds'') = []"
    by (simp_all add: rows_with_id_empty)
  then have f: "filter (\<lambda>r. r ''id'' = Some id1) (conn st ''builds'') = []"
    "filter (\<lambda>r. r ''id'' = Some id2) (conn st ''builds'') = []"
    by (simp_all add: rows_with_id_def)
  from assms(1,3,4) f show ?thesis
    by (simp add: insert_build_store get_build_store Let_def rows_with_id_def)
qed

theorem insert_two_builds_witness:
  "fst (get_build store_conn ''b2''
          (snd (insert_build store_conn ''b3'' ''v3'' 0
            (snd (insert_build store_conn ''b2'' ''v2'' 0 st_held)))))
     = Inr (Some [''branch'' \<mapsto> ''central'', ''id'' \<mapsto> ''b2'', ''version_'' \<mapsto> ''v2''])
   \<and> fst (get_build store_conn ''b3''
          (snd (insert_build store_conn ''b3'' ''v3'' 0
            (snd (insert_build store_conn ''b2'' ''v2'' 0 st_held)))))
     = Inr (Some [''branch'' \<mapsto> ''central'', ''id'' \<mapsto> ''b3'', ''version_'' \<mapsto> ''v3''])"
proof -
  have a: "''b2'' \<noteq> ''b3''" by simp
  have b: "\<forall>r\<in>set (conn st_held ''builds''). r ''id'' \<noteq> Some ''b2'' \<and> r ''id'' \<noteq> Some ''b3''"
    by (simp add: st_held_def)
  have c: "0 < next_addr st_held" by (simp add: st_held_def)
  have o: "objs st_held 0 = [''branch'' \<mapsto> ''central'']"
    by (simp add: st_held_def)
  from insert_two_builds [OF a b c c, of "''v2''" "''v3''"] show ?thesis
    by (simp add: o)
qed

text \<open>
  In \<open>st_held\<close> the identifier \<open>b1\<close> is present with the version \<open>v1\<close>: of the
  inserts of \<open>b1\<close> with the version \<open>v9\<close> and of \<open>b2\<close>, the first raises, and
  fetching \<open>b1\<close> after both returns the version \<open>v1\<close>.
\<close>

theorem insert_two_builds_counterexample:
  "''b1'' \<noteq> ''b2''
   \<and> fst (insert_build store_conn ''b1'' ''v9'' 0 st_held) = Inl UniquenessViolation
   \<and> fst (get_build store_conn ''b1''
          (snd (insert_build store_conn ''b2'' ''v2'' 0
            (snd (insert_build store_conn ''b1'' ''v9'' 0 st_held)))))
       = Inr (Some [''id'' \<mapsto> ''b1'', ''version_'' \<mapsto> ''v1''])
   \<and> [''id'' \<mapsto> ''b1'', ''version_'' \<mapsto> ''v1''] ''version_'' \<noteq> Some ''v9''"
  by (simp add: insert_build_store get_build_store Let_def st_held_def rows_with_id_def)

section \<open>Errors of the collaborator\<close>

text \<open>
  \<^bold>\<open>C6\<close>. Whatever the connection is and for every input: when \<^verbatim>\<open>_insert_dict\<close>
  raises \<open>e\<close> on the row of \<^verbatim>\<open>insert_build\<close>, the method raises \<open>e\<close>; when the
  cursor creation, the execution of the statement, the call of \<^verbatim>\<open>_cursor_to_dicts\<close>
  or the conversion of the first row raises \<open>e\<close> in \<^verbatim>\<open>get_build\<close>, the method raises
  \<open>e\<close>. The error is the same value, and no result takes its place.
\<close>

theorem collaborator_errors_propagate:
  "(fst (insert_dict self ''builds''
          ((objs st params)(''id'' \<mapsto> build_id, ''version_'' \<mapsto> version)) (conn st)) = Inl e
      \<longrightarrow> fst (insert_build self build_id version params st) = Inl e)
   \<and> (fst (cursor self (conn st)) = Inl e
      \<longrightarrow> fst (get_build self build_id st) = Inl e)
   \<and> (cursor self (conn st) = (Inr c, s1)
      \<and> fst (execute self c ''SELECT * FROM builds WHERE id=:id'' [''id'' \<mapsto> build_id] s1) = Inl e
      \<longrightarrow> fst (get_build self build_id st) = Inl e)
   \<and> (cursor self (conn st) = (Inr c, s1)
      \<and> execute self c ''SELECT * FROM builds WHERE id=:id'' [''id'' \<mapsto> build_id] s1 = (Inr c', s2)
      \<and> fst (cursor_to_dicts self c' s2) = Inl e
      \<longrightarrow> fst (get_build self build_id st) = Inl e)
   \<and> (cursor self (conn st) = (Inr c, s1)
      \<and> execute self c ''SELECT * FROM builds WHERE id=:id'' [''id'' \<mapsto> build_id] s1 = (Inr c', s2)
      \<and> cursor_to_dicts self c' s2 = (Inr (Inl e # rest), s3)
      \<longrightarrow> fst (get_build self build_id st) = Inl e)"
proof (intro conjI impI)
  assume "fst (insert_dict self ''builds''
      ((objs st params)(''id'' \<mapsto> build_id, ''version_'' \<mapsto> version)) (conn st)) = Inl e"
  then show "fst (insert_build self build_id version params st) = Inl e"
    by (auto simp add: insert_build_unfold Let_def split: prod.splits sum.splits)
next
  assume "fst (cursor self (conn st)) = Inl e"
  then show "fst (get_build self build_id st) = Inl e"
    by (auto simp add: get_build_def split: prod.splits sum.splits)
next
  assume "cursor self (conn st) = (Inr c, s1)
    \<and> fst (execute self c ''SELECT * FROM builds WHERE id=:id'' [''id'' \<mapsto> build_id] s1) = Inl e"
  then show "fst (get_build self build_id st) = Inl e"
    by (auto simp add: get_build_def split: prod.splits sum.splits)
next
  assume "cursor self (conn st) = (Inr c, s1)
    \<and> execute self c ''SELECT * FROM builds WHERE id=:id'' [''id'' \<mapsto> build_id] s1 = (Inr c', s2)
    \<and> fst (cursor_to_dicts self c' s2) = Inl e"
  then show "fst (get_build self build_id st) = Inl e"
    by (auto simp add: get_build_def split: prod.splits sum.splits)
next
  assume "cursor self (conn st) = (Inr c, s1)
    \<and> execute self c ''SELECT * FROM builds WHERE id=:id'' [''id'' \<mapsto> build_id] s1 = (Inr c', s2)
    \<and> cursor_to_dicts self c' s2 = (Inr (Inl e # rest), s3)"
  then show "fst (get_build self build_id st) = Inl e"
    by (simp add: get_build_def)
qed

text \<open>One failing connection for each of the five places.\<close>

theorem collaborator_errors_propagate_witness:
  "fst (insert_build (failing_at 0 ''disk full'') ''b1'' ''v1'' 0 (heap_of [Map.empty] ()))
     = Inl ''disk full''
   \<and> fst (get_build (failing_at 1 ''closed'') ''b1'' (heap_of [] ())) = Inl ''closed''
   \<and> fst (get_build (failing_at 2 ''no such table'') ''b1'' (heap_of [] ())) = Inl ''no such table''
   \<and> fst (get_build (failing_at 3 ''no description'') ''b1'' (heap_of [] ())) = Inl ''no description''
   \<and> fst (get_build (failing_at 4 ''bad column'') ''b1'' (heap_of [] ())) = Inl ''bad column''"
proof -
  have 0: "fst (insert_build (failing_at 0 ''disk full'') ''b1'' ''v1'' 0 (heap_of [Map.empty] ()))
      = Inl ''disk full''"
    using collaborator_errors_propagate
      [of "failing_at 0 ''disk full''" "heap_of [Map.empty] ()" 0 "''b1''" "''v1''" "''disk full''"]
    by (simp add: failing_at_def)
  have 1: "fst (get_build (failing_at 1 ''closed'') ''b1'' (heap_of [] ())) = Inl ''closed''"
    using collaborator_errors_propagate
      [of "failing_at 1 ''closed''" "heap_of [] ()" 0 "''b1''" "''v1''" "''closed''"]
    by (simp add: failing_at_def)
  have 2: "fst (get_build (failing_at 2 ''no such table'') ''b1'' (heap_of [] ()))
      = Inl ''no such table''"
    using collaborator_errors_propagate
      [of "failing_at 2 ''no such table''" "heap_of [] ()" 0 "''b1''" "''v1''" "''no such table''"
          "()" "()"]
    by (simp add: failing_at_def)
  have 3: "fst (get_build (failing_at 3 ''no description'') ''b1'' (heap_of [] ()))
      = Inl ''no description''"
    using collaborator_errors_propagate
      [of "failing_at 3 ''no description''" "heap_of [] ()" 0 "''b1''" "''v1''" "''no description''"
          "()" "()" "()" "()"]
    by (simp add: failing_at_def)
  have 4: "fst (get_build (failing_at 4 ''bad column'') ''b1'' (heap_of [] ())) = Inl ''bad column''"
    using collaborator_errors_propagate
      [of "failing_at 4 ''bad column''" "heap_of [] ()" 0 "''b1''" "''v1''" "''bad column''"
          "()" "()" "()" "()" "[]" "()"]
    by (simp add: failing_at_def)
  from 0 1 2 3 4 show ?thesis by simp
qed

section \<open>What the two methods change\<close>

text \<open>
  \<^bold>\<open>C7\<close>, amended. For every state of the store, \<^verbatim>\<open>insert_build\<close> does one of two
  things. Where a row of \<^verbatim>\<open>builds\<close> has \<^verbatim>\<open>id\<close> equal to \<open>build_id\<close> it raises the
  uniqueness violation of the store and leaves the store as it was. Otherwise it returns
  no value and adds one row to \<^verbatim>\<open>builds\<close>, after the rows present, which stay as they
  were, as does every other table. \<^verbatim>\<open>get_build\<close> only reads: the whole state is
  unchanged. Neither method changes or removes a row.
\<close>

theorem store_frame:
  "(fst (insert_build store_conn build_id version params st) = Inl UniquenessViolation
      \<and> rows_with_id (Some build_id) (conn st ''builds'') \<noteq> []
      \<and> conn (snd (insert_build store_conn build_id version params st)) = conn st
    \<or> fst (insert_build store_conn build_id version params st) = Inr ()
      \<and> rows_with_id (Some build_id) (conn st ''builds'') = []
      \<and> conn (snd (insert_build store_conn build_id version params st))
          = (conn st)(''builds'' := conn st ''builds''
               @ [(objs st params)(''id'' \<mapsto> build_id, ''version_'' \<mapsto> version)]))
   \<and> snd (get_build store_conn build_id st) = st"
  by (simp add: insert_build_store get_build_store Let_def)

theorem store_frame_witness:
  "fst (insert_build store_conn ''b2'' ''v2'' 0 st_twice) = Inr ()
   \<and> conn (snd (insert_build store_conn ''b2'' ''v2'' 0 st_twice)) ''builds''
       = conn st_twice ''builds'' @ [[''id'' \<mapsto> ''b2'', ''version_'' \<mapsto> ''v2'']]
   \<and> snd (get_build store_conn ''b1'' st_twice) = st_twice"
  using store_frame [of "''b2''" "''v2''" 0 st_twice] store_frame [of "''b1''" "''v2''" 0 st_twice]
  by (simp add: st_twice_def rows_with_id_def)

text \<open>
  In \<open>st_held\<close> the identifier \<open>b1\<close> is present: the insert raises and the table holds
  the rows it held, so that no row was added.
\<close>

theorem store_frame_counterexample:
  "fst (insert_build store_conn ''b1'' ''v9'' 0 st_held) = Inl UniquenessViolation
   \<and> conn (snd (insert_build store_conn ''b1'' ''v9'' 0 st_held)) ''builds''
       = conn st_held ''builds''
   \<and> length (conn (snd (insert_build store_conn ''b1'' ''v9'' 0 st_held)) ''builds'')
       \<noteq> Suc (length (conn st_held ''builds''))"
  by (simp add: insert_build_store Let_def st_held_def rows_with_id_def)

section \<open>The statement \<^verbatim>\<open>get_build\<close> issues\<close>

text \<open>
  \<^bold>\<open>C8\<close>. For every \<open>build_id\<close>, the one statement \<^verbatim>\<open>get_build\<close> gives the connection
  to execute is the text \<^verbatim>\<open>SELECT * FROM builds WHERE id=:id\<close>, together with the
  bound parameters \<^verbatim>\<open>{'id': build_id}\<close>; the texts issued for two identifiers are the
  same, so the identifier travels in the parameters only.
\<close>

theorem get_build_sql_text_fixed:
  "conn (snd (get_build sql_recorder build_id st))
     = conn st @ [(''SELECT * FROM builds WHERE id=:id'', [''id'' \<mapsto> build_id])]
   \<and> map fst (conn (snd (get_build sql_recorder build_id st)))
     = map fst (conn (snd (get_build sql_recorder other_id st)))"
  by (simp add: get_build_def sql_recorder_def)

theorem get_build_sql_text_fixed_witness:
  "map fst (conn (snd (get_build sql_recorder ''1 OR 1=1'' st_recorded)))
     = [''BEGIN'', ''SELECT * FROM builds WHERE id=:id'']
   \<and> map snd (conn (snd (get_build sql_recorder ''1 OR 1=1'' st_recorded)))
     = [Map.empty, [''id'' \<mapsto> ''1 OR 1=1'']]"
  using get_build_sql_text_fixed [of "''1 OR 1=1''" st_recorded "''b1''"]
  by (simp add: st_recorded_def)

section \<open>The caller's dictionary\<close>

text \<open>
  \<^bold>\<open>C9\<close>. For every \<open>build_id\<close>, \<open>version\<close> and \<open>params\<close> (an object of the heap),
  \<^verbatim>\<open>insert_build\<close> leaves the dictionary \<open>params\<close> as it was: the same keys with the
  same values, also when \<^verbatim>\<open>id\<close> or \<^verbatim>\<open>version_\<close> are among them. The two assignments
  go to the copy.
\<close>

theorem insert_build_keeps_params:
  "params < next_addr st \<Longrightarrow>
     objs (snd (insert_build self build_id version params st)) params = objs st params"
  by (simp add: insert_build_unfold Let_def split: prod.splits sum.splits)

theorem insert_build_keeps_params_witness:
  "objs (snd (insert_build store_conn ''b1'' ''v1'' 0 st_fresh)) 0
     = [''branch'' \<mapsto> ''central'', ''id'' \<mapsto> ''other'']
   \<and> objs (snd (insert_build store_conn ''b1'' ''v1'' 0 st_fresh)) 1
     = [''branch'' \<mapsto> ''central'', ''id'' \<mapsto> ''b1'', ''version_'' \<mapsto> ''v1'']"
proof -
  have c: "0 < next_addr st_fresh" by (simp add: st_fresh_def)
  have o: "objs st_fresh 0 = [''branch'' \<mapsto> ''central'', ''id'' \<mapsto> ''other'']"
    by (simp add: st_fresh_def)
  have n: "next_addr st_fresh = 1" by (simp add: st_fresh_def)
  from insert_build_keeps_params [OF c, of store_conn "''b1''" "''v1''"] show ?thesis
    by (simp add: o n insert_build_unfold Let_def split: prod.splits sum.splits)
qed

section \<open>No parameters\<close>

text \<open>
  \<^bold>\<open>C10\<close>, amended. For every \<open>build_id\<close> and \<open>version\<close>, and every state of the
  store in which no row of \<^verbatim>\<open>builds\<close> has \<^verbatim>\<open>id\<close> equal to \<open>build_id\<close>: with an
  empty \<open>params\<close>, \<^verbatim>\<open>insert_build\<close> still inserts a row, and that row has the two
  keys \<^verbatim>\<open>id\<close>, with the value \<open>build_id\<close>, and \<^verbatim>\<open>version_\<close>, with the value
  \<open>version\<close>, and no other key. (Where a row with that \<^verbatim>\<open>id\<close> is present already,
  the store refuses the insert.)
\<close>

theorem insert_build_empty_params:
  assumes "objs st params = Map.empty"
    and "\<forall>r\<in>set (conn st ''builds''). r ''id'' \<noteq> Some build_id"
  shows "fst (insert_build store_conn build_id version params st) = Inr ()
    \<and> conn (snd (insert_build store_conn build_id version params st))
        = (conn st)(''builds'' := conn st ''builds''
             @ [[''id'' \<mapsto> build_id, ''version_'' \<mapsto> version]])
    \<and> dom [''id'' \<mapsto> build_id, ''version_'' \<mapsto> version] = {''id'', ''version_''}
    \<and> [''id'' \<mapsto> build_id, ''version_'' \<mapsto> version] ''id'' = Some build_id
    \<and> [''id'' \<mapsto> build_id, ''version_'' \<mapsto> version] ''version_'' = Some version"
proof -
  from assms(2) have "rows_with_id (Some build_id) (conn st ''builds'') = []"
    by (simp add: rows_with_id_empty)
  with assms(1) show ?thesis
    by (auto simp add: insert_build_store Let_def)
qed

text \<open>In \<open>st_twice\<close> the dictionary at address \<open>0\<close> is empty and no row carries \<open>b3\<close>.\<close>

theorem insert_build_empty_params_witness:
  "fst (insert_build store_conn ''b3'' ''v3'' 0 st_twice) = Inr ()
   \<and> conn (snd (insert_build store_conn ''b3'' ''v3'' 0 st_twice)) ''builds''
       = conn st_twice ''builds'' @ [[''id'' \<mapsto> ''b3'', ''version_'' \<mapsto> ''v3'']]"
proof -
  have o: "objs st_twice 0 = Map.empty" by (simp add: st_twice_def)
  have h: "\<forall>r\<in>set (conn st_twice ''builds''). r ''id'' \<noteq> Some ''b3''"
    by (simp add: st_twice_def)
  from insert_build_empty_params [OF o h, of "''v3''"] show ?thesis
    by simp
qed

text \<open>
  In \<open>st_twice\<close> the identifier \<open>b1\<close> is present: with the empty dictionary as
  parameters the insert of \<open>b1\<close> raises and the store is as it was, so that no row was
  inserted.
\<close>

theorem insert_build_empty_params_counterexample:
  "objs st_twice 0 = Map.empty
   \<and> fst (insert_build store_conn ''b1'' ''v9'' 0 st_twice) = Inl UniquenessViolation
   \<and> conn (snd (insert_build store_conn ''b1'' ''v9'' 0 st_twice)) = conn st_twice"
  by (simp add: insert_build_store Let_def st_twice_def rows_with_id_def)

end
